theory Spec2Isabelle
  imports Complex_Main "HOL-Library.Sublist"
begin

section \<open>Python values used by app.py\<close>

text \<open>
  Text is a \<^typ>\<open>string\<close>: every character stands for one code point below 256.
  Python floats are read as the real numbers they denote: parsing, \<open>round(x, 2)\<close>,
  \<open>max\<close>, \<open>sum\<close> and \<open>math.log10\<close> are the exact operations on \<^typ>\<open>real\<close>,
  so the rounding error of binary floating point, infinities and NaN are outside this
  development.
\<close>

text \<open>
  The exceptions the source tells apart in \<open>run_pylint\<close>, and every other
  \<open>Exception\<close>. The argument is the text of \<open>str(e)\<close>.
\<close>

datatype exn = FileNotFoundError string | TimeoutExpired string | OtherException string

fun exn_str :: "exn \<Rightarrow> string" where
  "exn_str (FileNotFoundError m) = m"
| "exn_str (TimeoutExpired m) = m"
| "exn_str (OtherException m) = m"

text \<open>The class \<open>\s\<close> of \<open>re\<close> and of \<open>str.strip\<close> on code points below 256.\<close>

definition is_space :: "char \<Rightarrow> bool" where
  "is_space c = (c \<in> set [CHR 0x09, CHR 0x0A, CHR 0x0B, CHR 0x0C, CHR 0x0D,
                          CHR 0x1C, CHR 0x1D, CHR 0x1E, CHR 0x1F, CHR '' '',
                          CHR 0x85, CHR 0xA0])"

text \<open>The class \<open>\d\<close> on code points below 256.\<close>

definition is_digit :: "char \<Rightarrow> bool" where
  "is_digit c = (c \<in> set ''0123456789'')"

definition lower_ascii :: "char \<Rightarrow> char" where
  "lower_ascii c =
     (case map_of (zip ''ABCDEFGHIJKLMNOPQRSTUVWXYZ'' ''abcdefghijklmnopqrstuvwxyz'') c of
        Some l \<Rightarrow> l
      | None \<Rightarrow> c)"

definition digit_val :: "char \<Rightarrow> nat" where
  "digit_val c = of_char c - 48"

definition digits_val :: "string \<Rightarrow> nat" where
  "digits_val ds = foldl (\<lambda>n c. 10 * n + digit_val c) 0 ds"

text \<open>
  \<open>float(s)\<close> on the spellings \<open>[-] digits [. digits]\<close>, the only ones the two
  patterns of \<open>run_pylint\<close> can capture. \<open>None\<close> is the \<open>ValueError\<close>; the other
  spellings Python accepts (exponents, \<open>inf\<close>, underscores, blanks around the number)
  are not modelled and are \<open>None\<close> here as well.
\<close>

definition py_float :: "string \<Rightarrow> real option" where
  "py_float s =
     (let neg = (s \<noteq> [] \<and> hd s = CHR ''-'');
          body = (if neg then tl s else s);
          ip = takeWhile is_digit body;
          r = dropWhile is_digit body;
          sg = (if neg then - 1 else 1)
      in if ip = [] then None
         else if r = [] then Some (sg * real (digits_val ip))
         else if hd r = CHR ''.'' \<and> tl r \<noteq> [] \<and> list_all is_digit (tl r)
           then Some (sg * (real (digits_val ip) + real (digits_val (tl r)) / 10 ^ length (tl r)))
         else None)"

text \<open>
  \<open>round(x, 2)\<close>: the nearest multiple of 1/100, a tie going to the even multiple
  (Python rounds the exact value of the float).
\<close>

definition py_round2 :: "real \<Rightarrow> real" where
  "py_round2 x =
     (let y = x * 100; f = \<lfloor>y\<rfloor>; d = y - of_int f
      in (if d < 1 / 2 then of_int f
          else if 1 / 2 < d then of_int (f + 1)
          else if even f then of_int f else of_int (f + 1)) / 100)"

section \<open>The two rating patterns of run_pylint\<close>

text \<open>
  \<open>re.search\<close> tries the start positions from left to right and returns the first
  match. At one start position both patterns have at most one way to match: the classes
  \<open>\s\<close>, \<open>\d\<close> and the literals \<open>-\<close>, \<open>.\<close>, \<open>/\<close> are pairwise disjoint, so
  giving back a character of a greedy repetition leaves a character the next item of the
  pattern cannot take. The matchers below therefore take each repetition in full.
\<close>

text \<open>A literal under \<open>re.IGNORECASE\<close>; the result is the rest of the text.\<close>

fun match_literal_ci :: "string \<Rightarrow> string \<Rightarrow> string option" where
  "match_literal_ci [] s = Some s"
| "match_literal_ci (p # ps) [] = None"
| "match_literal_ci (p # ps) (c # s) =
     (if lower_ascii c = lower_ascii p then match_literal_ci ps s else None)"

text \<open>The group \<open>(-?\d+(?:\.\d+)?)\<close>: the captured text and the rest.\<close>

definition match_number :: "string \<Rightarrow> (string \<times> string) option" where
  "match_number s =
     (let neg = (s \<noteq> [] \<and> hd s = CHR ''-'');
          sign = (if neg then ''-'' else []);
          s1 = (if neg then tl s else s);
          ip = takeWhile is_digit s1;
          s2 = dropWhile is_digit s1
      in if ip = [] then None
         else if s2 \<noteq> [] \<and> hd s2 = CHR ''.'' \<and> takeWhile is_digit (tl s2) \<noteq> []
           then Some (sign @ ip @ ''.'' @ takeWhile is_digit (tl s2), dropWhile is_digit (tl s2))
         else Some (sign @ ip, s2))"

text \<open>The tail \<open>\s*/\s*10\<close>.\<close>

definition match_slash_10 :: "string \<Rightarrow> bool" where
  "match_slash_10 s =
     (case dropWhile is_space s of
        [] \<Rightarrow> False
      | c # t \<Rightarrow> c = CHR ''/'' \<and> take 2 (dropWhile is_space t) = ''10'')"

text \<open>The second pattern, \<open>(-?\d+(?:\.\d+)?)\s*/\s*10\<close>, at the start of the text.\<close>

definition match_any_at :: "string \<Rightarrow> string option" where
  "match_any_at s =
     (case match_number s of
        None \<Rightarrow> None
      | Some (g, r) \<Rightarrow> if match_slash_10 r then Some g else None)"

text \<open>
  The first pattern, \<open>rated at\s+(-?\d+(?:\.\d+)?)\s*/\s*10\<close> under
  \<open>re.IGNORECASE\<close>, at the start of the text.
\<close>

definition match_rated_at :: "string \<Rightarrow> string option" where
  "match_rated_at s =
     (case match_literal_ci ''rated at'' s of
        None \<Rightarrow> None
      | Some r \<Rightarrow> if takeWhile is_space r = [] then None
                  else match_any_at (dropWhile is_space r))"

text \<open>\<open>re.search\<close>: group 1 of the leftmost match, \<open>None\<close> when no position matches.\<close>

fun re_search :: "(string \<Rightarrow> string option) \<Rightarrow> string \<Rightarrow> string option" where
  "re_search m [] = m []"
| "re_search m (c # s) = (case m (c # s) of Some g \<Rightarrow> Some g | None \<Rightarrow> re_search m s)"




section \<open>run_pylint\<close>

record completed_process =
  stdout :: "string option"
  stderr :: "string option"

text \<open>\<open>x or ""\<close> on an optional text.\<close>

definition or_empty :: "string option \<Rightarrow> string" where
  "or_empty x = (case x of None \<Rightarrow> [] | Some s \<Rightarrow> s)"

text \<open>
  Lines 38 to 53 of \<open>run_pylint\<close>, on the captured output. A \<open>float\<close> that raises is
  passed over (\<open>except Exception: pass\<close>) and the next pattern is tried.
\<close>

definition parse_rating :: "string \<Rightarrow> real \<times> string" where
  "parse_rating output =
     (let fallback =
            (case re_search match_any_at output of
               None \<Rightarrow> (0, output)
             | Some g2 \<Rightarrow>
                 (case py_float g2 of
                    Some score \<Rightarrow> (py_round2 score, output)
                  | None \<Rightarrow> (0, output)))
      in case re_search match_rated_at output of
           None \<Rightarrow> fallback
         | Some g1 \<Rightarrow>
             (case py_float g1 of
                Some score \<Rightarrow> (py_round2 score, output)
              | None \<Rightarrow> fallback))"

text \<open>
  \<open>subprocess.run\<close> is a parameter: given the command line and the timeout it answers
  with the completed process or with the exception it raises.
\<close>

type_synonym subprocess = "string list \<Rightarrow> nat \<Rightarrow> exn + completed_process"

text \<open>The command line, lines 17 to 20.\<close>

definition pylint_cmd :: "string \<Rightarrow> bool \<Rightarrow> string list" where
  "pylint_cmd filename disable_import_error =
     [''pylint'', ''--score=y'']
     @ (if disable_import_error then [''--disable=import-error''] else [])
     @ [filename]"

text \<open>Line 30: \<open>(result.stdout or "") + "\n" + (result.stderr or "")\<close>.\<close>

definition combined_output :: "completed_process \<Rightarrow> string" where
  "combined_output result = or_empty (stdout result) @ [CHR 0x0A] @ or_empty (stderr result)"

definition run_pylint :: "subprocess \<Rightarrow> string \<Rightarrow> bool \<Rightarrow> nat \<Rightarrow> real \<times> string" where
  "run_pylint subprocess_run filename disable_import_error timeout_s =
     (case subprocess_run (pylint_cmd filename disable_import_error) timeout_s of
        Inl (FileNotFoundError m) \<Rightarrow>
          (0, ''Pylint not found. Install pylint (`pip install pylint`).'')
      | Inl (TimeoutExpired m) \<Rightarrow> (0, ''Pylint timed out.'')
      | Inl (OtherException m) \<Rightarrow> (0, ''Pylint error: '' @ m)
      | Inr result \<Rightarrow> parse_rating (combined_output result))"

section \<open>cc_to_score\<close>

text \<open>
  Of an element of \<open>cc_visit\<close>'s result only the attribute \<open>complexity\<close> is read.
  \<open>cc_rank\<close> belongs to the radon library and is a parameter: it answers with a rank
  or with the exception it raises.
\<close>

record cc_block =
  complexity :: int

text \<open>\<open>mapping.get(rank, 0)\<close>.\<close>

definition mapping_get :: "string \<Rightarrow> int" where
  "mapping_get rank =
     (case map_of [(''A'', 10), (''B'', 8), (''C'', 6), (''D'', 4), (''E'', 2), (''F'', 0)] rank of
        Some v \<Rightarrow> v
      | None \<Rightarrow> 0)"

text \<open>The list comprehension of line 60; the first exception of \<open>cc_rank\<close> ends it.\<close>

fun cc_scores :: "(int \<Rightarrow> exn + string) \<Rightarrow> cc_block list \<Rightarrow> exn + int list" where
  "cc_scores cc_rank [] = Inr []"
| "cc_scores cc_rank (r # rs) =
     (case cc_rank (complexity r) of
        Inl e \<Rightarrow> Inl e
      | Inr k \<Rightarrow>
          (case cc_scores cc_rank rs of
             Inl e \<Rightarrow> Inl e
           | Inr ss \<Rightarrow> Inr (mapping_get k # ss)))"

text \<open>The builtin \<open>sum\<close>, which adds from the left starting at 0.\<close>

definition py_sum :: "'a::monoid_add list \<Rightarrow> 'a" where
  "py_sum xs = foldl (+) 0 xs"

definition cc_to_score :: "(int \<Rightarrow> exn + string) \<Rightarrow> cc_block list \<Rightarrow> exn + real" where
  "cc_to_score cc_rank cc_results =
     (if cc_results = [] then Inr 10
      else case cc_scores cc_rank cc_results of
             Inl e \<Rightarrow> Inl e
           | Inr scores \<Rightarrow>
               Inr (py_round2 (real_of_int (py_sum scores) / real (length scores))))"

section \<open>halstead_scores\<close>

text \<open>
  An element of \<open>h_visit\<close>'s result may lack the attribute \<open>effort\<close> or \<open>bugs\<close>;
  \<open>getattr(h, name, 0.0)\<close> then gives the default.
\<close>

record halstead_report =
  effort :: "real option"
  bugs :: "real option"

definition getattr_or :: "real \<Rightarrow> real option \<Rightarrow> real" where
  "getattr_or d a = (case a of None \<Rightarrow> d | Some v \<Rightarrow> v)"

text \<open>
  The builtin \<open>max\<close> of a non-empty list: the first element, replaced by each later
  element that is greater. The source calls it on a non-empty list only.
\<close>

fun py_max :: "real list \<Rightarrow> real" where
  "py_max (x # xs) = foldl (\<lambda>m y. if m < y then y else m) x xs"

definition halstead_scores ::
  "(string \<Rightarrow> exn + halstead_report list) \<Rightarrow> string \<Rightarrow> exn + real \<times> real \<times> real \<times> real" where
  "halstead_scores h_visit source_code =
     (case h_visit source_code of
        Inl e \<Rightarrow> Inl e
      | Inr halstead \<Rightarrow>
          if halstead = [] then Inr (10, 10, 0, 0)
          else
            (let efforts = map (\<lambda>h. getattr_or 0 (effort h)) halstead;
                 bugs_l = map (\<lambda>h. getattr_or 0 (bugs h)) halstead;
                 raw_eff = (if efforts \<noteq> [] then py_max efforts else 0);
                 raw_bug = (if bugs_l \<noteq> [] then py_sum bugs_l else 0);
                 effort_sc = (if raw_eff \<le> 0 then 10
                              else max 0 (min 10 (10 - log 10 (raw_eff + 1) * 2)));
                 bug_sc = max 0 (min 10 (10 - raw_bug * 10))
             in Inr (py_round2 effort_sc, py_round2 bug_sc, raw_eff, raw_bug)))"

section \<open>The outside world of one call\<close>

text \<open>
  The file system maps a path to the text of the file; \<open>app.all_results\<close> is absent
  until the first request sets it. What the collaborators answer during one call of
  the handler is a record \<open>env\<close>: the temporary directory, the random name, whether
  the file can be written and removed, and the three analysers.
\<close>

record analysis_result =
  pylint_score :: real
  pylint_output :: string
  cc_score :: real
  effort_score :: real
  bug_score :: real
  raw_effort :: real
  raw_bugs :: real
  test_pass_rate :: string
  maintainability :: string

record world =
  files :: "string \<rightharpoonup> string"
  all_results :: "analysis_result list option"

text \<open>
  \<open>open(path, "w")\<close> followed by \<open>f.write(text)\<close>: \<open>OpenFailed\<close> raises before the
  file exists; \<open>WriteFailed e left\<close> raises after \<open>open\<close> has created the file, which
  then holds \<open>left\<close> (for instance \<open>UnicodeEncodeError\<close> on a lone surrogate, or a
  full disk).
\<close>

datatype write_outcome = Written | OpenFailed exn | WriteFailed exn string

record env =
  gettempdir :: string
  uuid4_hex :: string
  open_write :: "string \<Rightarrow> string \<Rightarrow> write_outcome"
  subprocess_run :: subprocess
  cc_visit :: "string \<Rightarrow> exn + cc_block list"
  cc_rank :: "int \<Rightarrow> exn + string"
  h_visit :: "string \<Rightarrow> exn + halstead_report list"
  os_remove :: "string \<Rightarrow> exn option"

definition py_open_write :: "env \<Rightarrow> string \<Rightarrow> string \<Rightarrow> world \<Rightarrow> exn option \<times> world" where
  "py_open_write ev path text w =
     (case open_write ev path text of
        Written \<Rightarrow> (None, w\<lparr>files := (files w)(path \<mapsto> text)\<rparr>)
      | OpenFailed e \<Rightarrow> (Some e, w)
      | WriteFailed e left \<Rightarrow> (Some e, w\<lparr>files := (files w)(path \<mapsto> left)\<rparr>))"

text \<open>
  \<open>os.remove(path)\<close>: raises when the file is absent or when the system refuses
  (\<open>os_remove ev path = Some e\<close>); otherwise the file is gone.
\<close>

definition py_os_remove :: "env \<Rightarrow> string \<Rightarrow> world \<Rightarrow> exn option \<times> world" where
  "py_os_remove ev path w =
     (if files w path = None then (Some (FileNotFoundError path), w)
      else case os_remove ev path of
             Some e \<Rightarrow> (Some e, w)
           | None \<Rightarrow> (None, w\<lparr>files := (files w)(path := None)\<rparr>))"

text \<open>\<open>os.path.join\<close> of two components on a POSIX system.\<close>

definition os_path_join :: "string \<Rightarrow> string \<Rightarrow> string" where
  "os_path_join a b =
     (if b \<noteq> [] \<and> hd b = CHR ''/'' then b
      else if a = [] \<or> last a = CHR ''/'' then a @ b
      else a @ ''/'' @ b)"

section \<open>analyze_code_string\<close>

text \<open>The name of the temporary file, lines 83 to 85.\<close>

definition upload_path :: "env \<Rightarrow> string" where
  "upload_path ev = os_path_join (gettempdir ev) (''upload_'' @ uuid4_hex ev @ ''.py'')"

text \<open>
  The body of the \<open>try\<close>, lines 91 to 117. Each \<open>except Exception as e\<close> is the
  \<open>Inl e\<close> branch of its stage; \<open>cc_stage\<close> is lines 93 and 94, where either call
  may raise.
\<close>

definition cc_stage :: "env \<Rightarrow> string \<Rightarrow> exn + real" where
  "cc_stage ev code_str =
     (case cc_visit ev code_str of
        Inl e \<Rightarrow> Inl e
      | Inr cc_results \<Rightarrow> cc_to_score (cc_rank ev) cc_results)"

definition analyze_stages :: "env \<Rightarrow> string \<Rightarrow> string \<Rightarrow> analysis_result" where
  "analyze_stages ev fullpath code_str =
     (let (lint_sc, out0) = run_pylint (subprocess_run ev) fullpath True 15;
          (cc_sc, out1) = (case cc_stage ev code_str of
                             Inl e \<Rightarrow> (0, out0 @ [CHR 0x0A] @ ''Radon CC error: '' @ exn_str e)
                           | Inr s \<Rightarrow> (s, out0));
          (effort_sc, bug_sc, eff, bgs, out2) =
             (case halstead_scores (h_visit ev) code_str of
                Inl e \<Rightarrow> (0, 0, 0, 0, out1 @ [CHR 0x0A] @ ''Halstead error: '' @ exn_str e)
              | Inr (es, bs, re, rb) \<Rightarrow> (es, bs, re, rb, out1))
      in \<lparr>pylint_score = lint_sc, pylint_output = out2, cc_score = cc_sc,
          effort_score = effort_sc, bug_score = bug_sc, raw_effort = eff, raw_bugs = bgs,
          test_pass_rate = ''10/10'', maintainability = ''10/10''\<rparr>)"

text \<open>
  The whole function. The file is written before the \<open>try\<close>, so an exception there
  leaves the function at once; the \<open>finally\<close> removes the file and passes over an
  exception of \<open>os.remove\<close>.
\<close>

definition analyze_code_string ::
  "env \<Rightarrow> string \<Rightarrow> world \<Rightarrow> (exn + analysis_result) \<times> world" where
  "analyze_code_string ev code_str w =
     (let fullpath = upload_path ev
      in case py_open_write ev fullpath code_str w of
           (Some e, w1) \<Rightarrow> (Inl e, w1)
         | (None, w1) \<Rightarrow>
             (let results = analyze_stages ev fullpath code_str;
                  (removed, w2) = py_os_remove ev fullpath w1
              in (Inr results, w2)))"

section \<open>The route handler index\<close>

datatype http_method = GET | POST

record request =
  http_method :: http_method
  code_text :: "string option"

text \<open>\<open>str.strip()\<close>.\<close>

definition py_strip :: "string \<Rightarrow> string" where
  "py_strip s = rev (dropWhile is_space (rev (dropWhile is_space s)))"

text \<open>
  Lines 128 to 136. The page the handler returns is built from \<open>app.all_results\<close>
  afterwards and is left out; the result here is the exception that leaves the handler,
  if any, and the world after the call.
\<close>

definition index :: "env \<Rightarrow> request \<Rightarrow> world \<Rightarrow> exn option \<times> world" where
  "index ev req w =
     (let w0 = (if all_results w = None then w\<lparr>all_results := Some []\<rparr> else w)
      in if http_method req = POST then
           (let code = py_strip (or_empty (code_text req))
            in if code \<noteq> [] then
                 (case analyze_code_string ev code w0 of
                    (Inl e, w1) \<Rightarrow> (Some e, w1)
                  | (Inr results, w1) \<Rightarrow>
                      (case all_results w1 of
                         None \<Rightarrow> (Some (OtherException ''all_results''), w1)
                       | Some rs \<Rightarrow> (None, w1\<lparr>all_results := Some (rs @ [results])\<rparr>)))
               else (None, w0))
         else (None, w0))"


text \<open>\<open>History.list()\<close>: the records in \<open>app.all_results\<close>, none before the first request.\<close>

definition history :: "world \<Rightarrow> analysis_result list" where
  "history w = (case all_results w of None \<Rightarrow> [] | Some rs \<Rightarrow> rs)"


section \<open>Concrete inputs\<close>

text \<open>
  The ranks of radon's \<open>cc_rank\<close> as its documentation gives them: 1 to 5 is A,
  6 to 10 is B, 11 to 20 is C, 21 to 30 is D, 31 to 40 is E, above that F; a negative
  complexity raises.
\<close>

definition radon_rank :: "int \<Rightarrow> exn + string" where
  "radon_rank c =
     (if c < 0 then Inl (OtherException ''Complexity must be a non-negative value'')
      else if c \<le> 5 then Inr ''A''
      else if c \<le> 10 then Inr ''B''
      else if c \<le> 20 then Inr ''C''
      else if c \<le> 30 then Inr ''D''
      else if c \<le> 40 then Inr ''E''
      else Inr ''F'')"

text \<open>
  A call in which every collaborator succeeds: pylint rates the snippet 7.50, radon finds
  four blocks of ranks A, A, B, F and one Halstead report of effort 999 and 0.05 bugs,
  followed by an object without these attributes.
\<close>

definition env_ok :: env where
  "env_ok =
     \<lparr>gettempdir = ''/tmp'',
      uuid4_hex = ''3f2b8c1d9a4e4f67b0c5d2e1a7f80912'',
      open_write = (\<lambda>path text. Written),
      subprocess_run = (\<lambda>cmd t. Inr \<lparr>stdout = Some ''Your code has been rated at 7.50/10'',
                                      stderr = Some []\<rparr>),
      cc_visit = (\<lambda>src. Inr [\<lparr>complexity = 1\<rparr>, \<lparr>complexity = 3\<rparr>,
                               \<lparr>complexity = 7\<rparr>, \<lparr>complexity = 45\<rparr>]),
      cc_rank = radon_rank,
      h_visit = (\<lambda>src. Inr [\<lparr>effort = Some 999, bugs = Some (1 / 20)\<rparr>,
                              \<lparr>effort = None, bugs = None\<rparr>]),
      os_remove = (\<lambda>path. None)\<rparr>"

text \<open>The same call with a pylint that rates the snippet below zero.\<close>

definition env_negative :: env where
  "env_negative =
     env_ok\<lparr>subprocess_run :=
              (\<lambda>cmd t. Inr \<lparr>stdout = Some ''Your code has been rated at -5.00/10'',
                             stderr = Some []\<rparr>)\<rparr>"

text \<open>The same call on a machine without pylint.\<close>

definition env_no_pylint :: env where
  "env_no_pylint =
     env_ok\<lparr>subprocess_run :=
              (\<lambda>cmd t. Inl (FileNotFoundError ''No such file or directory: pylint''))\<rparr>"

text \<open>The same call when \<open>f.write\<close> raises after \<open>open\<close> has created the file.\<close>

definition env_write_fails :: env where
  "env_write_fails =
     env_ok\<lparr>open_write := (\<lambda>path text. WriteFailed (OtherException ''write failed'') [])\<rparr>"

text \<open>The same call when radon cannot parse the snippet: both analysers raise.\<close>

definition env_radon_fails :: env where
  "env_radon_fails =
     env_ok\<lparr>cc_visit := (\<lambda>src. Inl (OtherException ''invalid syntax (<unknown>, line 1)'')),
            h_visit := (\<lambda>src. Inl (OtherException ''invalid syntax (<unknown>, line 1)''))\<rparr>"

text \<open>A form submission of the given text.\<close>

definition post_request :: "string \<Rightarrow> request" where
  "post_request text = \<lparr>http_method = POST, code_text = Some text\<rparr>"

text \<open>The process before and after the first request.\<close>

definition world_start :: world where
  "world_start = \<lparr>files = Map.empty, all_results = None\<rparr>"

definition world_empty_history :: world where
  "world_empty_history = \<lparr>files = Map.empty, all_results = Some []\<rparr>"

section \<open>Rounding, sum and maximum\<close>

lemma py_round2_nearest:
  "\<exists>n::int. py_round2 x = of_int n / 100 \<and> \<bar>of_int n - x * 100\<bar> \<le> 1 / 2"
proof -
  define f where "f = \<lfloor>x * 100\<rfloor>"
  have a: "of_int f \<le> x * 100" and b: "x * 100 < of_int f + 1"
    unfolding f_def by linarith+
  show ?thesis
    unfolding py_round2_def Let_def f_def[symmetric]
    using a b by (auto intro!: exI[of _ f] exI[of _ "f + 1"])
qed

lemma py_round2_range:
  assumes "0 \<le> x" "x \<le> 10"
  shows "0 \<le> py_round2 x \<and> py_round2 x \<le> 10"
proof -
  obtain n :: int where n: "py_round2 x = of_int n / 100" "\<bar>of_int n - x * 100\<bar> \<le> 1 / 2"
    using py_round2_nearest by blast
  from n(2) assms have "- 1 < (of_int n :: real)" "(of_int n :: real) < 1001" by linarith+
  then have "0 \<le> n" "n \<le> 1000" by linarith+
  then have "0 \<le> (of_int n :: real)" "(of_int n :: real) \<le> 1000" by simp_all
  with n(1) show ?thesis by simp
qed

lemma foldl_add_start: "foldl (+) (a::'a::monoid_add) xs = a + sum_list xs"
  by (induction xs arbitrary: a) (simp_all add: add.assoc)

lemma py_sum_sum_list: "py_sum xs = sum_list xs"
  by (simp add: py_sum_def foldl_add_start)



section \<open>What the patterns capture can be parsed\<close>










section \<open>Ranges of the scores\<close>

lemma mapping_get_range: "0 \<le> mapping_get k \<and> mapping_get k \<le> 10"
  by (simp add: mapping_get_def)

lemma cc_scores_range:
  "cc_scores rk rs = Inr ss \<Longrightarrow> length ss = length rs \<and> (\<forall>s \<in> set ss. 0 \<le> s \<and> s \<le> 10)"
proof (induction rs arbitrary: ss)
  case Nil
  then show ?case by simp
next
  case (Cons r rs)
  then show ?case
    by (auto split: sum.splits simp: mapping_get_range)
qed

lemma sum_list_bounds:
  "\<forall>s \<in> set ss. 0 \<le> s \<and> s \<le> (10::int) \<Longrightarrow> 0 \<le> sum_list ss \<and> sum_list ss \<le> 10 * int (length ss)"
  by (induction ss) auto

lemma cc_to_score_range:
  assumes "cc_to_score rk rs = Inr s"
  shows "0 \<le> s \<and> s \<le> 10"
proof (cases "rs = []")
  case True
  with assms show ?thesis by (simp add: cc_to_score_def)
next
  case False
  with assms obtain ss where ss: "cc_scores rk rs = Inr ss"
    and s: "s = py_round2 (real_of_int (py_sum ss) / real (length ss))"
    by (auto simp: cc_to_score_def split: sum.splits)
  from cc_scores_range[OF ss] False have len: "0 < length ss"
    and b: "\<forall>s \<in> set ss. 0 \<le> s \<and> s \<le> 10" by auto
  from sum_list_bounds[OF b] have "0 \<le> sum_list ss" "sum_list ss \<le> 10 * int (length ss)" by auto
  then have "0 \<le> real_of_int (sum_list ss)" "real_of_int (sum_list ss) \<le> 10 * real (length ss)"
    by (simp, metis of_int_le_iff of_int_mult of_int_numeral of_int_of_nat_eq)
  with len have "0 \<le> real_of_int (sum_list ss) / real (length ss)"
    "real_of_int (sum_list ss) / real (length ss) \<le> 10"
    by (simp_all add: divide_le_eq)
  then show ?thesis unfolding s py_sum_sum_list by (rule py_round2_range)
qed

lemma halstead_scores_range:
  assumes "halstead_scores hv src = Inr (es, bs, re, rb)"
  shows "0 \<le> es \<and> es \<le> 10 \<and> 0 \<le> bs \<and> bs \<le> 10"
proof -
  from assms obtain hs where hs: "hv src = Inr hs"
    by (auto simp: halstead_scores_def split: sum.splits)
  show ?thesis
  proof (cases "hs = []")
    case True
    with assms hs show ?thesis by (simp add: halstead_scores_def)
  next
    case False
    with assms hs obtain x y where "es = py_round2 x" "0 \<le> x" "x \<le> 10"
      "bs = py_round2 y" "0 \<le> y" "y \<le> 10"
      by (auto simp: halstead_scores_def Let_def split: if_splits)
    then show ?thesis using py_round2_range by blast
  qed
qed

lemma analyze_written:
  "open_write ev (upload_path ev) code = Written \<Longrightarrow>
   fst (analyze_code_string ev code w) = Inr (analyze_stages ev (upload_path ev) code)"
  by (simp add: analyze_code_string_def py_open_write_def Let_def split: prod.splits)

lemma analyze_returns:
  "fst (analyze_code_string ev code w) = Inr r \<Longrightarrow>
   open_write ev (upload_path ev) code = Written \<and> r = analyze_stages ev (upload_path ev) code"
  by (auto simp: analyze_code_string_def py_open_write_def Let_def
           split: prod.splits write_outcome.splits)

lemma stages_cc_score:
  "cc_score (analyze_stages ev p c) = (case cc_stage ev c of Inl e \<Rightarrow> 0 | Inr s \<Rightarrow> s)"
  by (simp add: analyze_stages_def Let_def split: prod.splits sum.splits)

lemma cc_stage_range: "cc_stage ev c = Inr s \<Longrightarrow> 0 \<le> s \<and> s \<le> 10"
  by (auto simp: cc_stage_def split: sum.splits dest: cc_to_score_range)

lemma stages_halstead:
  "(effort_score (analyze_stages ev p c), bug_score (analyze_stages ev p c),
    raw_effort (analyze_stages ev p c), raw_bugs (analyze_stages ev p c)) =
     (case halstead_scores (h_visit ev) c of Inl e \<Rightarrow> (0, 0, 0, 0) | Inr t \<Rightarrow> t)"
  by (simp add: analyze_stages_def Let_def split: prod.splits sum.splits)

lemma stages_pylint_score:
  "pylint_score (analyze_stages ev p c) = fst (run_pylint (subprocess_run ev) p True 15)"
  by (simp add: analyze_stages_def Let_def split: prod.splits sum.splits)

lemma stages_pylint_output:
  "pylint_output (analyze_stages ev p c) =
     snd (run_pylint (subprocess_run ev) p True 15)
     @ (case cc_stage ev c of
          Inl e \<Rightarrow> [CHR 0x0A] @ ''Radon CC error: '' @ exn_str e
        | Inr s \<Rightarrow> [])
     @ (case halstead_scores (h_visit ev) c of
          Inl e \<Rightarrow> [CHR 0x0A] @ ''Halstead error: '' @ exn_str e
        | Inr t \<Rightarrow> [])"
  by (simp add: analyze_stages_def Let_def split: prod.splits sum.splits)

lemma parse_rating_cases:
  "fst (parse_rating out) = 0 \<or>
   (\<exists>g v. (re_search match_rated_at out = Some g \<or> re_search match_any_at out = Some g) \<and>
          py_float g = Some v \<and> fst (parse_rating out) = py_round2 v)"
  by (auto simp: parse_rating_def Let_def split: option.splits)

section \<open>The concrete calls, evaluated\<close>

lemmas rx = match_rated_at_def match_any_at_def match_number_def match_slash_10_def
  is_digit_def is_space_def lower_ascii_def
lemmas fl = py_float_def digits_val_def digit_val_def py_round2_def

lemma log_1000: "log 10 1000 = 3"
  using log_pow_cancel [of 10 3] by simp

lemma env_ok_fields:
  "gettempdir env_ok = ''/tmp''"
  "uuid4_hex env_ok = ''3f2b8c1d9a4e4f67b0c5d2e1a7f80912''"
  "open_write env_ok = (\<lambda>path text. Written)"
  "cc_rank env_ok = radon_rank"
  "os_remove env_ok = (\<lambda>path. None)"
  "cc_visit env_ok = (\<lambda>src. Inr [\<lparr>complexity = 1\<rparr>, \<lparr>complexity = 3\<rparr>,
                               \<lparr>complexity = 7\<rparr>, \<lparr>complexity = 45\<rparr>])"
  "h_visit env_ok = (\<lambda>src. Inr [\<lparr>effort = Some 999, bugs = Some (1 / 20)\<rparr>,
                              \<lparr>effort = None, bugs = None\<rparr>])"
  by (simp_all add: env_ok_def)

lemma pylint_ok:
  "run_pylint (subprocess_run env_ok) p True 15 =
     (15 / 2, ''Your code has been rated at 7.50/10'' @ [CHR 0x0A])"
  by (simp add: env_ok_def run_pylint_def combined_output_def or_empty_def parse_rating_def rx fl)

lemma pylint_negative:
  "run_pylint (subprocess_run env_negative) p True 15 =
     (- 5, ''Your code has been rated at -5.00/10'' @ [CHR 0x0A])"
  by (simp add: env_negative_def env_ok_def run_pylint_def combined_output_def or_empty_def
        parse_rating_def rx fl)

lemma cc_ok:
  "cc_to_score radon_rank [\<lparr>complexity = 1\<rparr>, \<lparr>complexity = 3\<rparr>,
                           \<lparr>complexity = 7\<rparr>, \<lparr>complexity = 45\<rparr>] = Inr 7"
  by (simp add: cc_to_score_def radon_rank_def mapping_get_def py_sum_def py_round2_def)

lemma halstead_ok:
  "halstead_scores (\<lambda>src. Inr [\<lparr>effort = Some 999, bugs = Some (1 / 20)\<rparr>,
                              \<lparr>effort = None, bugs = None\<rparr>]) c = Inr (4, 19 / 2, 999, 1 / 20)"
  by (simp add: halstead_scores_def getattr_or_def py_sum_def py_round2_def log_1000)

lemma stages_ok:
  "analyze_stages env_ok p c =
     \<lparr>pylint_score = 15 / 2,
      pylint_output = ''Your code has been rated at 7.50/10'' @ [CHR 0x0A],
      cc_score = 7, effort_score = 4, bug_score = 19 / 2, raw_effort = 999, raw_bugs = 1 / 20,
      test_pass_rate = ''10/10'', maintainability = ''10/10''\<rparr>"
  by (simp add: analyze_stages_def cc_stage_def pylint_ok env_ok_fields cc_ok halstead_ok)

lemma stages_negative_score: "pylint_score (analyze_stages env_negative p c) = - 5"
  by (simp add: stages_pylint_score pylint_negative)

text \<open>
  Claim C1, as the code has it. Whenever \<open>analyze_code_string\<close> returns a record, its
  complexity score, effort score and bug score lie in the interval from 0 to 10. The lint
  score lies there too, unless pylint ran and the rating one of the two patterns captured
  from its output is itself below 0 or above 10: the score is then that rating, rounded
  and not clamped.
\<close>

theorem C1_subscores:
  assumes "fst (analyze_code_string ev code w) = Inr r"
  shows "0 \<le> cc_score r \<and> cc_score r \<le> 10 \<and>
         0 \<le> effort_score r \<and> effort_score r \<le> 10 \<and>
         0 \<le> bug_score r \<and> bug_score r \<le> 10 \<and>
         ((0 \<le> pylint_score r \<and> pylint_score r \<le> 10) \<or>
          (\<exists>p g v. subprocess_run ev (pylint_cmd (upload_path ev) True) 15 = Inr p \<and>
                   (re_search match_rated_at (combined_output p) = Some g \<or>
                    re_search match_any_at (combined_output p) = Some g) \<and>
                   py_float g = Some v \<and> (v < 0 \<or> 10 < v) \<and> pylint_score r = py_round2 v))"
proof -
  from analyze_returns[OF assms] have r: "r = analyze_stages ev (upload_path ev) code" by simp
  have cc: "0 \<le> cc_score r \<and> cc_score r \<le> 10"
    unfolding r stages_cc_score
    by (auto split: sum.splits dest: cc_stage_range)
  have hal: "0 \<le> effort_score r \<and> effort_score r \<le> 10 \<and> 0 \<le> bug_score r \<and> bug_score r \<le> 10"
  proof (cases "halstead_scores (h_visit ev) code")
    case (Inl e)
    with stages_halstead[of ev "upload_path ev" code] show ?thesis by (simp add: r)
  next
    case (Inr t)
    obtain es bs re rb where t: "t = (es, bs, re, rb)" by (cases t) auto
    from stages_halstead[of ev "upload_path ev" code] Inr t
    have "effort_score r = es" "bug_score r = bs" by (simp_all add: r)
    with halstead_scores_range[of "h_visit ev" code es bs re rb] Inr t show ?thesis by simp
  qed
  have lint: "(0 \<le> pylint_score r \<and> pylint_score r \<le> 10) \<or>
          (\<exists>p g v. subprocess_run ev (pylint_cmd (upload_path ev) True) 15 = Inr p \<and>
                   (re_search match_rated_at (combined_output p) = Some g \<or>
                    re_search match_any_at (combined_output p) = Some g) \<and>
                   py_float g = Some v \<and> (v < 0 \<or> 10 < v) \<and> pylint_score r = py_round2 v)"
  proof (cases "subprocess_run ev (pylint_cmd (upload_path ev) True) 15")
    case (Inl e)
    then have "pylint_score r = 0"
      by (cases e) (simp_all add: r stages_pylint_score run_pylint_def)
    then show ?thesis by simp
  next
    case (Inr p)
    then have ps: "pylint_score r = fst (parse_rating (combined_output p))"
      by (simp add: r stages_pylint_score run_pylint_def)
    from parse_rating_cases[of "combined_output p"] show ?thesis
    proof
      assume "fst (parse_rating (combined_output p)) = 0"
      with ps show ?thesis by simp
    next
      assume "\<exists>g v. (re_search match_rated_at (combined_output p) = Some g \<or>
                     re_search match_any_at (combined_output p) = Some g) \<and>
                    py_float g = Some v \<and> fst (parse_rating (combined_output p)) = py_round2 v"
      then obtain g v where gv: "re_search match_rated_at (combined_output p) = Some g \<or>
                     re_search match_any_at (combined_output p) = Some g"
        "py_float g = Some v" "fst (parse_rating (combined_output p)) = py_round2 v" by blast
      show ?thesis
      proof (cases "0 \<le> v \<and> v \<le> 10")
        case True
        then show ?thesis using py_round2_range[of v] ps gv(3) by simp
      next
        case False
        then have "v < 0 \<or> 10 < v" by linarith
        with Inr gv ps show ?thesis by auto
      qed
    qed
  qed
  from cc hal lint show ?thesis by blast
qed

text \<open>The call \<open>env_ok\<close> returns a record, with all four scores in range.\<close>

theorem C1_subscores_witness:
  "fst (analyze_code_string env_ok ''x = 1'' world_start) =
     Inr (analyze_stages env_ok (upload_path env_ok) ''x = 1'') \<and>
   cc_score (analyze_stages env_ok (upload_path env_ok) ''x = 1'') = 7 \<and>
   effort_score (analyze_stages env_ok (upload_path env_ok) ''x = 1'') = 4 \<and>
   bug_score (analyze_stages env_ok (upload_path env_ok) ''x = 1'') = 19 / 2 \<and>
   pylint_score (analyze_stages env_ok (upload_path env_ok) ''x = 1'') = 15 / 2"
proof -
  have h: "fst (analyze_code_string env_ok ''x = 1'' world_start) =
     Inr (analyze_stages env_ok (upload_path env_ok) ''x = 1'')"
    by (rule analyze_written) (simp add: env_ok_fields)
  from C1_subscores[OF h] h show ?thesis by (simp add: stages_ok)
qed

text \<open>
  Claim C1 as stated fails: when pylint reports \<open>rated at -5.00/10\<close>, the record
  that is returned has the lint score -5.
\<close>

theorem C1_lint_score_counterexample:
  "fst (analyze_code_string env_negative ''x = 1'' world_start) =
     Inr (analyze_stages env_negative (upload_path env_negative) ''x = 1'') \<and>
   pylint_score (analyze_stages env_negative (upload_path env_negative) ''x = 1'') = - 5 \<and>
   \<not> (0 \<le> pylint_score (analyze_stages env_negative (upload_path env_negative) ''x = 1''))"
proof -
  have "fst (analyze_code_string env_negative ''x = 1'' world_start) =
     Inr (analyze_stages env_negative (upload_path env_negative) ''x = 1'')"
    by (rule analyze_written) (simp add: env_negative_def env_ok_fields)
  then show ?thesis by (simp add: stages_negative_score)
qed

section \<open>Failures of the stages\<close>

lemma env_no_pylint_fields:
  "open_write env_no_pylint = (\<lambda>path text. Written)"
  "subprocess_run env_no_pylint =
     (\<lambda>cmd t. Inl (FileNotFoundError ''No such file or directory: pylint''))"
  "cc_stage env_no_pylint c = Inr 7"
  "halstead_scores (h_visit env_no_pylint) c = Inr (4, 19 / 2, 999, 1 / 20)"
  by (simp_all add: env_no_pylint_def cc_stage_def env_ok_fields cc_ok halstead_ok)

lemma env_radon_fails_fields:
  "open_write env_radon_fails = (\<lambda>path text. Written)"
  "run_pylint (subprocess_run env_radon_fails) p True 15 =
     (15 / 2, ''Your code has been rated at 7.50/10'' @ [CHR 0x0A])"
  "cc_stage env_radon_fails c = Inl (OtherException ''invalid syntax (<unknown>, line 1)'')"
  "halstead_scores (h_visit env_radon_fails) c =
     Inl (OtherException ''invalid syntax (<unknown>, line 1)'')"
  using pylint_ok[of p]
  by (simp_all add: env_radon_fails_def cc_stage_def halstead_scores_def env_ok_fields)

lemma stages_no_pylint:
  "analyze_stages env_no_pylint p c =
     \<lparr>pylint_score = 0,
      pylint_output = ''Pylint not found. Install pylint (`pip install pylint`).'',
      cc_score = 7, effort_score = 4, bug_score = 19 / 2, raw_effort = 999, raw_bugs = 1 / 20,
      test_pass_rate = ''10/10'', maintainability = ''10/10''\<rparr>"
  by (simp add: analyze_stages_def run_pylint_def env_no_pylint_fields)

lemma stages_radon_fails:
  "analyze_stages env_radon_fails p c =
     \<lparr>pylint_score = 15 / 2,
      pylint_output = ''Your code has been rated at 7.50/10'' @ [CHR 0x0A, CHR 0x0A]
        @ ''Radon CC error: invalid syntax (<unknown>, line 1)'' @ [CHR 0x0A]
        @ ''Halstead error: invalid syntax (<unknown>, line 1)'',
      cc_score = 0, effort_score = 0, bug_score = 0, raw_effort = 0, raw_bugs = 0,
      test_pass_rate = ''10/10'', maintainability = ''10/10''\<rparr>"
  by (simp add: analyze_stages_def env_radon_fails_fields)

text \<open>
  Claim C2, as the code has it. In the record \<open>analyze_code_string\<close> returns, each stage
  depends on its own collaborator only. A failure of radon's complexity analysis or of the
  Halstead analysis is caught by the \<open>except\<close> of its stage: the scores of that stage
  are 0.0 and a line break followed by \<open>Radon CC error: <message>\<close> or
  \<open>Halstead error: <message>\<close> is appended to \<open>pylint_output\<close>. A failure of the
  lint run is caught inside \<open>run_pylint\<close>: the lint score is 0.0 and the text starts
  with \<open>Pylint not found. Install pylint (`pip install pylint`).\<close>,
  \<open>Pylint timed out.\<close> or \<open>Pylint error: <message>\<close>, in place of the tool's output.
  Whatever the other stages do, a stage that succeeds contributes the value it computed.
\<close>

theorem C2_stage_failures:
  assumes "fst (analyze_code_string ev code w) = Inr r"
  shows
    "(\<forall>e. subprocess_run ev (pylint_cmd (upload_path ev) True) 15 = Inl e \<longrightarrow>
          run_pylint (subprocess_run ev) (upload_path ev) True 15 =
            (0, case e of
                  FileNotFoundError m \<Rightarrow> ''Pylint not found. Install pylint (`pip install pylint`).''
                | TimeoutExpired m \<Rightarrow> ''Pylint timed out.''
                | OtherException m \<Rightarrow> ''Pylint error: '' @ m)) \<and>
     pylint_score r = fst (run_pylint (subprocess_run ev) (upload_path ev) True 15) \<and>
     cc_score r = (case cc_stage ev code of Inl e \<Rightarrow> 0 | Inr s \<Rightarrow> s) \<and>
     (effort_score r, bug_score r, raw_effort r, raw_bugs r) =
       (case halstead_scores (h_visit ev) code of Inl e \<Rightarrow> (0, 0, 0, 0) | Inr t \<Rightarrow> t) \<and>
     pylint_output r =
       snd (run_pylint (subprocess_run ev) (upload_path ev) True 15)
       @ (case cc_stage ev code of
            Inl e \<Rightarrow> [CHR 0x0A] @ ''Radon CC error: '' @ exn_str e
          | Inr s \<Rightarrow> [])
       @ (case halstead_scores (h_visit ev) code of
            Inl e \<Rightarrow> [CHR 0x0A] @ ''Halstead error: '' @ exn_str e
          | Inr t \<Rightarrow> [])"
proof -
  from analyze_returns[OF assms] have r: "r = analyze_stages ev (upload_path ev) code" by simp
  have lint: "\<forall>e. subprocess_run ev (pylint_cmd (upload_path ev) True) 15 = Inl e \<longrightarrow>
          run_pylint (subprocess_run ev) (upload_path ev) True 15 =
            (0, case e of
                  FileNotFoundError m \<Rightarrow> ''Pylint not found. Install pylint (`pip install pylint`).''
                | TimeoutExpired m \<Rightarrow> ''Pylint timed out.''
                | OtherException m \<Rightarrow> ''Pylint error: '' @ m)"
    by (auto simp: run_pylint_def split: exn.splits)
  show ?thesis
    unfolding r using lint stages_pylint_score stages_cc_score stages_halstead stages_pylint_output
    by blast
qed

text \<open>
  Without pylint the complexity and Halstead scores are those of \<open>env_ok\<close>; when
  radon fails on the snippet the lint score is still 7.5 and both diagnostics are appended.
\<close>

theorem C2_stage_failures_witness:
  "analyze_stages env_no_pylint (upload_path env_no_pylint) ''x = 1'' =
     \<lparr>pylint_score = 0,
      pylint_output = ''Pylint not found. Install pylint (`pip install pylint`).'',
      cc_score = 7, effort_score = 4, bug_score = 19 / 2, raw_effort = 999, raw_bugs = 1 / 20,
      test_pass_rate = ''10/10'', maintainability = ''10/10''\<rparr> \<and>
   cc_score (analyze_stages env_radon_fails (upload_path env_radon_fails) ''def f(:'') = 0 \<and>
   effort_score (analyze_stages env_radon_fails (upload_path env_radon_fails) ''def f(:'') = 0 \<and>
   bug_score (analyze_stages env_radon_fails (upload_path env_radon_fails) ''def f(:'') = 0 \<and>
   pylint_score (analyze_stages env_radon_fails (upload_path env_radon_fails) ''def f(:'') = 15 / 2 \<and>
   pylint_output (analyze_stages env_radon_fails (upload_path env_radon_fails) ''def f(:'') =
     ''Your code has been rated at 7.50/10'' @ [CHR 0x0A, CHR 0x0A]
     @ ''Radon CC error: invalid syntax (<unknown>, line 1)'' @ [CHR 0x0A]
     @ ''Halstead error: invalid syntax (<unknown>, line 1)''"
proof -
  have h1: "fst (analyze_code_string env_no_pylint ''x = 1'' world_start) =
     Inr (analyze_stages env_no_pylint (upload_path env_no_pylint) ''x = 1'')"
    by (rule analyze_written) (simp add: env_no_pylint_fields)
  have h2: "fst (analyze_code_string env_radon_fails ''def f(:'' world_start) =
     Inr (analyze_stages env_radon_fails (upload_path env_radon_fails) ''def f(:'')"
    by (rule analyze_written) (simp add: env_radon_fails_fields)
  from C2_stage_failures[OF h1] C2_stage_failures[OF h2] show ?thesis
    by (simp add: stages_no_pylint stages_radon_fails)
qed

text \<open>
  Claim C2 as stated fails for the lint stage: when pylint is not installed the text of
  the record is the fixed sentence of line 32, which holds no \<open><Stage> error: <message>\<close>.
\<close>

theorem C2_lint_diagnostic_counterexample:
  "fst (analyze_code_string env_no_pylint ''x = 1'' world_start) =
     Inr (analyze_stages env_no_pylint (upload_path env_no_pylint) ''x = 1'') \<and>
   subprocess_run env_no_pylint (pylint_cmd (upload_path env_no_pylint) True) 15 =
     Inl (FileNotFoundError ''No such file or directory: pylint'') \<and>
   pylint_output (analyze_stages env_no_pylint (upload_path env_no_pylint) ''x = 1'') =
     ''Pylint not found. Install pylint (`pip install pylint`).'' \<and>
   \<not> sublist '' error: ''
        (pylint_output (analyze_stages env_no_pylint (upload_path env_no_pylint) ''x = 1''))"
proof -
  have "fst (analyze_code_string env_no_pylint ''x = 1'' world_start) =
     Inr (analyze_stages env_no_pylint (upload_path env_no_pylint) ''x = 1'')"
    by (rule analyze_written) (simp add: env_no_pylint_fields)
  moreover have "\<not> sublist '' error: '' ''Pylint not found. Install pylint (`pip install pylint`).''"
    by (simp add: sublist_Cons_right)
  ultimately show ?thesis
    by (simp add: stages_no_pylint env_no_pylint_fields)
qed

section \<open>The history\<close>

lemma analyze_keeps_history:
  "all_results (snd (analyze_code_string ev code w)) = all_results w"
  by (simp add: analyze_code_string_def py_open_write_def py_os_remove_def Let_def
           split: prod.splits write_outcome.splits option.splits)

text \<open>
  Once the file is written, every way through the \<open>try\<close> ends in the \<open>finally\<close>:
  the file is gone when \<open>os.remove\<close> succeeds and is still there when it raises, and
  that exception is passed over.
\<close>

lemma analyze_files_written:
  assumes "open_write ev (upload_path ev) code = Written"
  shows "files (snd (analyze_code_string ev code w)) =
           (case os_remove ev (upload_path ev) of
              None \<Rightarrow> (files w)(upload_path ev := None)
            | Some e \<Rightarrow> (files w)(upload_path ev \<mapsto> code))"
  using assms
  by (simp add: analyze_code_string_def py_open_write_def py_os_remove_def Let_def
           split: prod.splits option.splits)


lemma index_post:
  assumes "open_write ev (upload_path ev) (py_strip src) = Written" "py_strip src \<noteq> []"
  shows "fst (index ev (post_request src) w) = None \<and>
         history (snd (index ev (post_request src) w)) =
           history w @ [analyze_stages ev (upload_path ev) (py_strip src)]"
proof -
  define w0 where "w0 = (if all_results w = None then w\<lparr>all_results := Some []\<rparr> else w)"
  have h0: "history w0 = history w" and s0: "all_results w0 \<noteq> None"
    by (auto simp: w0_def history_def split: option.splits)
  obtain res w1 where a: "analyze_code_string ev (py_strip src) w0 = (res, w1)"
    by (cases "analyze_code_string ev (py_strip src) w0")
  have k: "all_results w1 = all_results w0"
    using analyze_keeps_history[of ev "py_strip src" w0] a by simp
  have r: "res = Inr (analyze_stages ev (upload_path ev) (py_strip src))"
    using analyze_written[OF assms(1), of w0] a by simp
  from s0 obtain rs where rs: "all_results w0 = Some rs" by auto
  then have hw: "history w = rs" using h0 by (simp add: history_def)
  show ?thesis
    unfolding index_def Let_def w0_def[symmetric] post_request_def
    using a k r rs hw assms(2) by (simp add: history_def or_empty_def)
qed



lemma strip_example: "py_strip '' x = 1 '' = ''x = 1''"
  by (simp add: py_strip_def is_space_def)

text \<open>
  Claim C3, as the code has it. When the temporary file can be written,
  \<open>analyze_code_string\<close> returns exactly one record without raising and leaves
  \<open>app.all_results\<close> as it was; it is the handler \<open>index\<close> that appends this record to
  the end of the history, for a POST whose stripped text is not empty.
\<close>

theorem C3_record_and_append:
  assumes "open_write ev (upload_path ev) code = Written"
  shows "fst (analyze_code_string ev code w) = Inr (analyze_stages ev (upload_path ev) code) \<and>
         all_results (snd (analyze_code_string ev code w)) = all_results w \<and>
         (\<forall>src. py_strip src = code \<and> code \<noteq> [] \<longrightarrow>
            fst (index ev (post_request src) w) = None \<and>
            history (snd (index ev (post_request src) w)) =
              history w @ [analyze_stages ev (upload_path ev) code])"
  using analyze_written[OF assms, of w] analyze_keeps_history[of ev code w] index_post[of ev _ w] assms
  by auto

text \<open>
  The first submission of a process: one record is returned, and the history holds it
  only after \<open>index\<close>.
\<close>

theorem C3_record_and_append_witness:
  "fst (analyze_code_string env_ok ''x = 1'' world_start) =
     Inr (analyze_stages env_ok (upload_path env_ok) ''x = 1'') \<and>
   all_results (snd (analyze_code_string env_ok ''x = 1'' world_start)) = None \<and>
   fst (index env_ok (post_request '' x = 1 '') world_start) = None \<and>
   history (snd (index env_ok (post_request '' x = 1 '') world_start)) =
     [analyze_stages env_ok (upload_path env_ok) ''x = 1'']"
proof -
  have h: "open_write env_ok (upload_path env_ok) ''x = 1'' = Written"
    by (simp add: env_ok_fields)
  from C3_record_and_append[OF h, of world_start] strip_example show ?thesis
    by (auto simp: world_start_def history_def)
qed

text \<open>
  Claim C3 as stated fails: \<open>analyze_code_string\<close> returns a record and the history is
  as empty after the call as before it.
\<close>

theorem C3_no_append_counterexample:
  "fst (analyze_code_string env_ok ''x = 1'' world_empty_history) =
     Inr (analyze_stages env_ok (upload_path env_ok) ''x = 1'') \<and>
   history (snd (analyze_code_string env_ok ''x = 1'' world_empty_history)) = []"
proof -
  have "fst (analyze_code_string env_ok ''x = 1'' world_empty_history) =
     Inr (analyze_stages env_ok (upload_path env_ok) ''x = 1'')"
    by (rule analyze_written) (simp add: env_ok_fields)
  moreover have "all_results (snd (analyze_code_string env_ok ''x = 1'' world_empty_history)) = Some []"
    by (simp add: analyze_keeps_history world_empty_history_def)
  ultimately show ?thesis by (simp add: history_def)
qed






text \<open>
  Claim C9 at an input where the code departs from it: \<open>f.write\<close> raises after
  \<open>open\<close> has created the temporary file. Lines 87 and 88 stand before the \<open>try\<close>,
  so the exception leaves \<open>analyze_code_string\<close> without reaching the \<open>finally\<close>,
  and the file that did not exist before the call exists after it.
\<close>

theorem C9_write_failure_leaves_file:
  "fst (analyze_code_string env_write_fails ''x = 1'' world_start) =
     Inl (OtherException ''write failed'') \<and>
   files world_start (upload_path env_write_fails) = None \<and>
   files (snd (analyze_code_string env_write_fails ''x = 1'' world_start))
     (upload_path env_write_fails) = Some []"
  by (simp add: analyze_code_string_def py_open_write_def env_write_fails_def world_start_def)

section \<open>The scorers\<close>




text \<open>
  Claim C7. \<open>run_pylint\<close> is a total function of what \<open>subprocess.run\<close> answers:
  every handler of the source is a branch that returns a pair. When the run raises, the
  result is the score 0.0 with the message of the matching handler.
\<close>

theorem C7_run_pylint_contains_failures:
  assumes "sp (pylint_cmd filename disable_import_error) timeout_s = Inl e"
  shows "run_pylint sp filename disable_import_error timeout_s =
           (0, case e of
                 FileNotFoundError m \<Rightarrow> ''Pylint not found. Install pylint (`pip install pylint`).''
               | TimeoutExpired m \<Rightarrow> ''Pylint timed out.''
               | OtherException m \<Rightarrow> ''Pylint error: '' @ m)"
  using assms by (cases e) (simp_all add: run_pylint_def)

text \<open>
  A missing executable, a timeout and another exception, each turned into its pair.
\<close>

theorem C7_run_pylint_contains_failures_witness:
  "run_pylint (\<lambda>cmd t. Inl (FileNotFoundError ''No such file or directory: pylint''))
      ''/tmp/upload_1.py'' True 15 =
     (0, ''Pylint not found. Install pylint (`pip install pylint`).'') \<and>
   run_pylint (\<lambda>cmd t. Inl (TimeoutExpired ''timed out after 15 seconds''))
      ''/tmp/upload_1.py'' True 15 = (0, ''Pylint timed out.'') \<and>
   run_pylint (\<lambda>cmd t. Inl (OtherException ''embedded null byte''))
      ''/tmp/upload_1.py'' True 15 = (0, ''Pylint error: embedded null byte'')"
  using
    C7_run_pylint_contains_failures[of "\<lambda>cmd t. Inl (FileNotFoundError ''No such file or directory: pylint'')"
      "''/tmp/upload_1.py''" True 15 "FileNotFoundError ''No such file or directory: pylint''"]
    C7_run_pylint_contains_failures[of "\<lambda>cmd t. Inl (TimeoutExpired ''timed out after 15 seconds'')"
      "''/tmp/upload_1.py''" True 15 "TimeoutExpired ''timed out after 15 seconds''"]
    C7_run_pylint_contains_failures[of "\<lambda>cmd t. Inl (OtherException ''embedded null byte'')"
      "''/tmp/upload_1.py''" True 15 "OtherException ''embedded null byte''"]
  by simp



section \<open>The matchers and the patterns agree\<close>

























section \<open>The rating parsed from the output\<close>
















section \<open>Ratings outside the range\<close>
















end
